theory Spec2Isabelle
  imports Main "HOL-Library.AList"
begin

section \<open>The Apple Speech stub for platforms other than macOS\<close>

text \<open>
  The source is \<^verbatim>\<open>src/backends/apple/native/stub.cpp\<close>: five native callbacks written
  against node-addon-api and the module initialiser \<^verbatim>\<open>Init\<close> that registers them.
  The callbacks are embedded as state-passing functions over the part of the JavaScript
  environment they touch: the pending exception and the promises the environment holds.
\<close>

subsection \<open>JavaScript values and the environment\<close>

text \<open>The five callbacks of the source, as the values a native function object wraps.\<close>

datatype native_fn =
    Transcribe_fn
  | IsAvailable_fn
  | SupportsOnDevice_fn
  | GetSupportedLocales_fn
  | RequestAuthorization_fn

text \<open>
  The error classes node-addon-api can construct (\<^verbatim>\<open>Napi::Error\<close>,
  \<^verbatim>\<open>Napi::TypeError\<close>, \<^verbatim>\<open>Napi::RangeError\<close>).
\<close>

datatype error_class = Error_cls | TypeError_cls | RangeError_cls

text \<open>
  JavaScript values. A promise is a handle into the environment's promise store, since
  the source creates a promise and settles it afterwards; the other objects are never
  changed after their construction and are modelled by their content.
\<close>

datatype js_value =
    JSUndefined
  | JSNull
  | JSBoolean bool
  | JSString string
  | JSArray "js_value list"
  | JSError error_class string
  | JSPromise nat
  | JSFunction native_fn
  | JSObject "(string \<times> js_value) list"

datatype promise_state = Pending | Fulfilled js_value | Rejected js_value

type_synonym heap = "promise_state list"

type_synonym js_object = "(string \<times> js_value) list"

text \<open>
  \<^verbatim>\<open>Napi::Env\<close>: the exception waiting to be thrown when the callback returns, and
  the promises, a promise handle being an index of the list.
\<close>

record napi_env =
  pending_exception :: "js_value option"
  promises :: heap

text \<open>\<^verbatim>\<open>Napi::CallbackInfo\<close>: the receiver and the arguments of the JavaScript call.\<close>

record callback_info =
  this_arg :: js_value
  args :: "js_value list"

subsection \<open>The node-addon-api operations the stub uses\<close>

text \<open>\<^verbatim>\<open>env.Undefined()\<close>\<close>

definition Env_Undefined :: "js_value" where
  "Env_Undefined = JSUndefined"

text \<open>\<^verbatim>\<open>Napi::Boolean::New(env, b)\<close>\<close>

definition Boolean_New :: "bool \<Rightarrow> js_value" where
  "Boolean_New b = JSBoolean b"

text \<open>
  \<^verbatim>\<open>Napi::Array::New(env, n)\<close>: an array of length \<open>n\<close>; reading any of its elements
  gives undefined.
\<close>

definition Array_New :: "nat \<Rightarrow> js_value" where
  "Array_New n = JSArray (replicate n JSUndefined)"

text \<open>\<^verbatim>\<open>Napi::Error::New(env, message)\<close>: an object of class Error with that message.\<close>

definition Error_New :: "string \<Rightarrow> js_value" where
  "Error_New message = JSError Error_cls message"

text \<open>
  \<^verbatim>\<open>error.ThrowAsJavaScriptException()\<close>: the error becomes the pending exception of
  the environment; the C++ function goes on running.
\<close>

definition ThrowAsJavaScriptException :: "js_value \<Rightarrow> napi_env \<Rightarrow> napi_env" where
  "ThrowAsJavaScriptException err env = env\<lparr>pending_exception := Some err\<rparr>"

text \<open>
  \<^verbatim>\<open>Napi::Promise::Deferred::New(env)\<close>: a new pending promise in the environment; the
  deferred is its handle.
\<close>

definition Deferred_New :: "napi_env \<Rightarrow> nat \<times> napi_env" where
  "Deferred_New env =
     (length (promises env), env\<lparr>promises := promises env @ [Pending]\<rparr>)"

text \<open>
  \<^verbatim>\<open>deferred.Reject(value)\<close>: settles the promise as rejected with the value. A promise
  is settled once: rejecting a promise that is not pending changes nothing.
\<close>

definition Deferred_Reject :: "nat \<Rightarrow> js_value \<Rightarrow> napi_env \<Rightarrow> napi_env" where
  "Deferred_Reject d v env =
     (if d < length (promises env) \<and> promises env ! d = Pending
      then env\<lparr>promises := (promises env)[d := Rejected v]\<rparr>
      else env)"

text \<open>\<^verbatim>\<open>deferred.Promise()\<close>\<close>

definition Deferred_Promise :: "nat \<Rightarrow> js_value" where
  "Deferred_Promise d = JSPromise d"

text \<open>\<^verbatim>\<open>Napi::Function::New(env, callback)\<close>\<close>

definition Function_New :: "native_fn \<Rightarrow> js_value" where
  "Function_New f = JSFunction f"

text \<open>
  \<^verbatim>\<open>object.Set(key, value)\<close>: a property that exists is overwritten in place, a new
  one is added after the others (JavaScript keeps string keys in insertion order).
\<close>

definition Object_Set :: "string \<Rightarrow> js_value \<Rightarrow> js_object \<Rightarrow> js_object" where
  "Object_Set key v obj = AList.update key v obj"

subsection \<open>The callbacks of the source\<close>

definition Transcribe :: "callback_info \<Rightarrow> napi_env \<Rightarrow> js_value \<times> napi_env" where
  "Transcribe info env =
     (let env1 =
            ThrowAsJavaScriptException
              (Error_New ''Apple Speech is only available on macOS'') env
      in (Env_Undefined, env1))"

definition IsAvailable :: "callback_info \<Rightarrow> napi_env \<Rightarrow> js_value \<times> napi_env" where
  "IsAvailable info env = (Boolean_New False, env)"

definition SupportsOnDevice :: "callback_info \<Rightarrow> napi_env \<Rightarrow> js_value \<times> napi_env" where
  "SupportsOnDevice info env = (Boolean_New False, env)"

definition GetSupportedLocales :: "callback_info \<Rightarrow> napi_env \<Rightarrow> js_value \<times> napi_env" where
  "GetSupportedLocales info env = (Array_New 0, env)"

definition RequestAuthorization :: "callback_info \<Rightarrow> napi_env \<Rightarrow> js_value \<times> napi_env" where
  "RequestAuthorization info env =
     (let (deferred, env1) = Deferred_New env;
          env2 =
            Deferred_Reject deferred
              (Error_New ''Apple Speech is only available on macOS'') env1
      in (Deferred_Promise deferred, env2))"

definition Init :: "napi_env \<Rightarrow> js_object \<Rightarrow> js_object" where
  "Init env exports =
     (let exports1 = Object_Set ''transcribe'' (Function_New Transcribe_fn) exports;
          exports2 = Object_Set ''isAvailable'' (Function_New IsAvailable_fn) exports1;
          exports3 =
            Object_Set ''supportsOnDevice'' (Function_New SupportsOnDevice_fn) exports2;
          exports4 =
            Object_Set ''getSupportedLocales'' (Function_New GetSupportedLocales_fn)
              exports3;
          exports5 =
            Object_Set ''requestAuthorization'' (Function_New RequestAuthorization_fn)
              exports4
      in exports5)"

subsection \<open>Calls from JavaScript\<close>

text \<open>The C++ function a native function object runs.\<close>

primrec call_native :: "native_fn \<Rightarrow> callback_info \<Rightarrow> napi_env \<Rightarrow> js_value \<times> napi_env" where
  "call_native Transcribe_fn = Transcribe"
| "call_native IsAvailable_fn = IsAvailable"
| "call_native SupportsOnDevice_fn = SupportsOnDevice"
| "call_native GetSupportedLocales_fn = GetSupportedLocales"
| "call_native RequestAuthorization_fn = RequestAuthorization"

text \<open>What the JavaScript caller gets: the value returned, or the exception thrown.\<close>

datatype outcome = Returned js_value | Threw js_value

text \<open>
  A call of a native function from JavaScript, as Node-API runs it: the callback starts
  with no exception pending; when it returns with an exception pending, the caller gets
  that exception and the returned value is dropped; otherwise the caller gets the value.
  The promises are what stays of the environment between two calls.
\<close>

definition host_call :: "native_fn \<Rightarrow> callback_info \<Rightarrow> heap \<Rightarrow> outcome \<times> heap" where
  "host_call f info h =
     (let (v, env') = call_native f info \<lparr>pending_exception = None, promises = h\<rparr>
      in (case pending_exception env' of
            None \<Rightarrow> Returned v
          | Some e \<Rightarrow> Threw e,
          promises env'))"

text \<open>The promises after a sequence of calls, each given by its function and its arguments.\<close>

primrec run_calls :: "(native_fn \<times> callback_info) list \<Rightarrow> heap \<Rightarrow> heap" where
  "run_calls [] h = h"
| "run_calls (c # cs) h = run_calls cs (snd (host_call (fst c) (snd c) h))"

subsection \<open>Observations used to state the properties\<close>

text \<open>
  The result of a call by its content: a returned promise is observed by the state it is
  in when the call returns, any other value and a thrown exception as they are.
\<close>

datatype observation =
    ObsReturned js_value
  | ObsThrew js_value
  | ObsFuture promise_state

definition observe :: "outcome \<times> heap \<Rightarrow> observation" where
  "observe r =
     (case fst r of
        Threw e \<Rightarrow> ObsThrew e
      | Returned v \<Rightarrow>
          (case v of
             JSPromise p \<Rightarrow>
               (if p < length (snd r) then ObsFuture (snd r ! p) else ObsReturned v)
           | _ \<Rightarrow> ObsReturned v))"

text \<open>
  The failure a call produces, if any, and the way it reaches the caller: thrown by the
  call itself, or carried by a returned promise that is already rejected.
\<close>

datatype failure_channel = RaisedDirectly | ViaRejectedFuture

definition failure_of :: "outcome \<times> heap \<Rightarrow> (failure_channel \<times> js_value) option" where
  "failure_of r =
     (case observe r of
        ObsThrew e \<Rightarrow> Some (RaisedDirectly, e)
      | ObsFuture (Rejected e) \<Rightarrow> Some (ViaRejectedFuture, e)
      | _ \<Rightarrow> None)"

text \<open>The length of an array value.\<close>

definition array_length :: "js_value \<Rightarrow> nat option" where
  "array_length v = (case v of JSArray xs \<Rightarrow> Some (length xs) | _ \<Rightarrow> None)"

text \<open>The names of the properties of an object, in order.\<close>

definition property_names :: "js_object \<Rightarrow> string list" where
  "property_names obj = map fst obj"

text \<open>Reading a property: \<^verbatim>\<open>object.Get(key)\<close>.\<close>

definition Object_Get :: "js_object \<Rightarrow> string \<Rightarrow> js_value option" where
  "Object_Get obj key = map_of obj key"

section \<open>Properties\<close>

subsection \<open>What each callback computes\<close>

lemma Transcribe_result:
  "Transcribe info env =
     (JSUndefined,
      env\<lparr>pending_exception :=
            Some (JSError Error_cls ''Apple Speech is only available on macOS'')\<rparr>)"
  by (simp add: Transcribe_def ThrowAsJavaScriptException_def Error_New_def Env_Undefined_def)

lemma IsAvailable_result: "IsAvailable info env = (JSBoolean False, env)"
  by (simp add: IsAvailable_def Boolean_New_def)

lemma SupportsOnDevice_result: "SupportsOnDevice info env = (JSBoolean False, env)"
  by (simp add: SupportsOnDevice_def Boolean_New_def)

lemma GetSupportedLocales_result: "GetSupportedLocales info env = (JSArray [], env)"
  by (simp add: GetSupportedLocales_def Array_New_def)

lemma RequestAuthorization_result:
  "RequestAuthorization info env =
     (JSPromise (length (promises env)),
      env\<lparr>promises :=
            promises env
            @ [Rejected (JSError Error_cls ''Apple Speech is only available on macOS'')]\<rparr>)"
  by (simp add: RequestAuthorization_def Deferred_New_def Deferred_Reject_def
      Deferred_Promise_def Error_New_def)

subsection \<open>What the JavaScript caller gets from each function\<close>

lemma host_call_Transcribe:
  "host_call Transcribe_fn info h =
     (Threw (JSError Error_cls ''Apple Speech is only available on macOS''), h)"
  by (simp add: host_call_def Transcribe_result)

lemma host_call_IsAvailable:
  "host_call IsAvailable_fn info h = (Returned (JSBoolean False), h)"
  by (simp add: host_call_def IsAvailable_result)

lemma host_call_SupportsOnDevice:
  "host_call SupportsOnDevice_fn info h = (Returned (JSBoolean False), h)"
  by (simp add: host_call_def SupportsOnDevice_result)

lemma host_call_GetSupportedLocales:
  "host_call GetSupportedLocales_fn info h = (Returned (JSArray []), h)"
  by (simp add: host_call_def GetSupportedLocales_result)

lemma host_call_RequestAuthorization:
  "host_call RequestAuthorization_fn info h =
     (Returned (JSPromise (length h)),
      h @ [Rejected (JSError Error_cls ''Apple Speech is only available on macOS'')])"
  by (simp add: host_call_def RequestAuthorization_result)

lemmas host_call_results =
  host_call_Transcribe host_call_IsAvailable host_call_SupportsOnDevice
  host_call_GetSupportedLocales host_call_RequestAuthorization

lemma run_calls_append: "run_calls (cs @ ds) h = run_calls ds (run_calls cs h)"
  by (induction cs arbitrary: h) simp_all

text \<open>The content of the result of a call does not depend on the promises it starts from.\<close>

lemma observe_host_call:
  "observe (host_call f info h) =
     (case f of
        Transcribe_fn \<Rightarrow>
          ObsThrew (JSError Error_cls ''Apple Speech is only available on macOS'')
      | IsAvailable_fn \<Rightarrow> ObsReturned (JSBoolean False)
      | SupportsOnDevice_fn \<Rightarrow> ObsReturned (JSBoolean False)
      | GetSupportedLocales_fn \<Rightarrow> ObsReturned (JSArray [])
      | RequestAuthorization_fn \<Rightarrow>
          ObsFuture
            (Rejected (JSError Error_cls ''Apple Speech is only available on macOS'')))"
  by (cases f) (simp_all add: observe_def host_call_results)

text \<open>A call never changes a promise that exists: it can only add one.\<close>

lemma host_call_keeps_heap: "take (length h) (snd (host_call f info h)) = h"
  by (cases f) (simp_all add: host_call_results)

subsection \<open>The claims of the specification\<close>

text \<open>
  C1: for every argument (and whatever promises exist), a call of \<open>transcribe\<close> fails:
  the caller gets a thrown error whose message is exactly "Apple Speech is only
  available on macOS". Nothing is read from the argument and nothing else is done before
  the failure: the promises are as they were.
\<close>

theorem Transcribe_always_raises:
  "host_call Transcribe_fn info h =
     (Threw (JSError Error_cls ''Apple Speech is only available on macOS''), h)
   \<and> promises (snd (Transcribe info env)) = promises env"
proof
  show "host_call Transcribe_fn info h =
     (Threw (JSError Error_cls ''Apple Speech is only available on macOS''), h)"
    by (rule host_call_Transcribe)
next
  show "promises (snd (Transcribe info env)) = promises env"
    by (simp add: Transcribe_result)
qed

text \<open>
  C2: every call of \<open>requestAuthorization\<close> returns a promise that is rejected when the
  call returns: the promise is new, its state in the promises the call leaves is
  Rejected with an error whose message is exactly "Apple Speech is only available on
  macOS", no promise is left pending by the call, and the call throws nothing.
\<close>

theorem RequestAuthorization_rejected_on_return:
  "host_call RequestAuthorization_fn info h =
     (Returned (JSPromise (length h)),
      h @ [Rejected (JSError Error_cls ''Apple Speech is only available on macOS'')])
   \<and> observe (host_call RequestAuthorization_fn info h) =
       ObsFuture (Rejected (JSError Error_cls ''Apple Speech is only available on macOS''))
   \<and> pending_exception (snd (RequestAuthorization info env)) = pending_exception env"
proof (intro conjI)
  show "host_call RequestAuthorization_fn info h =
     (Returned (JSPromise (length h)),
      h @ [Rejected (JSError Error_cls ''Apple Speech is only available on macOS'')])"
    by (rule host_call_RequestAuthorization)
  show "observe (host_call RequestAuthorization_fn info h) =
       ObsFuture (Rejected (JSError Error_cls ''Apple Speech is only available on macOS''))"
    by (simp add: observe_host_call)
  show "pending_exception (snd (RequestAuthorization info env)) = pending_exception env"
    by (simp add: RequestAuthorization_result)
qed

text \<open>
  C3: the failures of the five functions are of one kind. Whatever the function, the
  argument and the promises, a call fails only with the error of class Error whose
  message is "Apple Speech is only available on macOS" (the error the specification
  calls BackendUnavailable): \<open>transcribe\<close>, which is synchronous, throws it to the
  caller; \<open>requestAuthorization\<close>, which is asynchronous, returns it in a rejected
  promise; the other three never fail.
\<close>

theorem failures_are_the_one_error:
  "failure_of (host_call f info h) =
     (case f of
        Transcribe_fn \<Rightarrow>
          Some (RaisedDirectly,
                JSError Error_cls ''Apple Speech is only available on macOS'')
      | RequestAuthorization_fn \<Rightarrow>
          Some (ViaRejectedFuture,
                JSError Error_cls ''Apple Speech is only available on macOS'')
      | IsAvailable_fn \<Rightarrow> None
      | SupportsOnDevice_fn \<Rightarrow> None
      | GetSupportedLocales_fn \<Rightarrow> None)"
proof (cases f)
  case Transcribe_fn
  then show ?thesis by (simp add: failure_of_def observe_host_call)
next
  case IsAvailable_fn
  then show ?thesis by (simp add: failure_of_def observe_host_call)
next
  case SupportsOnDevice_fn
  then show ?thesis by (simp add: failure_of_def observe_host_call)
next
  case GetSupportedLocales_fn
  then show ?thesis by (simp add: failure_of_def observe_host_call)
next
  case RequestAuthorization_fn
  then show ?thesis by (simp add: failure_of_def observe_host_call)
qed

text \<open>
  C4: every call of \<open>isAvailable\<close> returns the boolean false and leaves the environment
  as it was: it throws nothing and changes no promise. This holds after any sequence
  \<open>cs\<close> of earlier calls, and a call of \<open>isAvailable\<close> anywhere in a sequence of calls
  can be left out without any change to what the sequence leaves.
\<close>

theorem IsAvailable_false:
  "IsAvailable info env = (JSBoolean False, env)
   \<and> host_call IsAvailable_fn info (run_calls cs h) =
       (Returned (JSBoolean False), run_calls cs h)
   \<and> run_calls (cs @ (IsAvailable_fn, info) # ds) h = run_calls (cs @ ds) h"
proof (intro conjI)
  show "IsAvailable info env = (JSBoolean False, env)"
    by (rule IsAvailable_result)
  show "host_call IsAvailable_fn info (run_calls cs h) =
       (Returned (JSBoolean False), run_calls cs h)"
    by (rule host_call_IsAvailable)
  show "run_calls (cs @ (IsAvailable_fn, info) # ds) h = run_calls (cs @ ds) h"
    by (simp add: run_calls_append host_call_IsAvailable)
qed

text \<open>
  C5: every call of \<open>supportsOnDevice\<close> returns the boolean false; it throws nothing and
  leaves the environment as it was.
\<close>

theorem SupportsOnDevice_false:
  "SupportsOnDevice info env = (JSBoolean False, env)
   \<and> host_call SupportsOnDevice_fn info h = (Returned (JSBoolean False), h)"
  using SupportsOnDevice_result host_call_SupportsOnDevice by simp

text \<open>
  C6: every call of \<open>getSupportedLocales\<close> returns an array of length 0, the empty
  sequence; it throws nothing and leaves the environment as it was.
\<close>

theorem GetSupportedLocales_empty:
  "host_call GetSupportedLocales_fn info h = (Returned (JSArray []), h)
   \<and> array_length (fst (GetSupportedLocales info env)) = Some 0
   \<and> snd (GetSupportedLocales info env) = env"
proof (intro conjI)
  show "host_call GetSupportedLocales_fn info h = (Returned (JSArray []), h)"
    by (rule host_call_GetSupportedLocales)
  show "array_length (fst (GetSupportedLocales info env)) = Some 0"
    by (simp add: GetSupportedLocales_result array_length_def)
  show "snd (GetSupportedLocales info env) = env"
    by (simp add: GetSupportedLocales_result)
qed

text \<open>
  C7: for each of the five functions and every argument, the second of two calls in
  sequence gives the same result as the first, and more generally the result of a call
  is the same after any sequence \<open>cs\<close> of earlier calls and from any two sets of
  promises \<open>h1\<close> and \<open>h2\<close>. Results are compared by content (a returned promise by the
  state it is in). No call changes anything that exists: the promises it starts from
  are all there, unchanged, when it returns, and nothing is added to them but the
  promise that \<open>requestAuthorization\<close> constructs to return it.
\<close>

theorem calls_are_idempotent:
  "observe (host_call f info (snd (host_call f info h))) = observe (host_call f info h)
   \<and> observe (host_call f info (run_calls cs h)) = observe (host_call f info h)
   \<and> observe (host_call f info h1) = observe (host_call f info h2)
   \<and> take (length h) (snd (host_call f info h)) = h
   \<and> snd (host_call f info h) =
       (if f = RequestAuthorization_fn
        then h @ [Rejected (JSError Error_cls ''Apple Speech is only available on macOS'')]
        else h)"
proof -
  have indep: "observe (host_call f info a) = observe (host_call f info b)" for a b
    by (simp add: observe_host_call)
  have effect: "snd (host_call f info h) =
       (if f = RequestAuthorization_fn
        then h @ [Rejected (JSError Error_cls ''Apple Speech is only available on macOS'')]
        else h)"
    by (cases f) (simp_all add: host_call_results)
  show ?thesis
    using indep host_call_keeps_heap effect by blast
qed

text \<open>
  C8: \<open>Init\<close> registers five entry points on the exports object and nothing else. On
  the empty exports object the properties afterwards are exactly \<open>transcribe\<close>,
  \<open>isAvailable\<close>, \<open>supportsOnDevice\<close>, \<open>getSupportedLocales\<close> and
  \<open>requestAuthorization\<close>, in this order. On any exports object, each of the five names
  holds the function of its callback afterwards and every other property is as it was.
\<close>

theorem Init_registers_five:
  "property_names (Init env []) =
     [''transcribe'', ''isAvailable'', ''supportsOnDevice'', ''getSupportedLocales'',
      ''requestAuthorization'']
   \<and> length (property_names (Init env [])) = 5
   \<and> set (property_names (Init env exports)) =
       set (property_names exports)
       \<union> {''transcribe'', ''isAvailable'', ''supportsOnDevice'',
          ''getSupportedLocales'', ''requestAuthorization''}
   \<and> Object_Get (Init env exports) key =
       (if key = ''transcribe'' then Some (JSFunction Transcribe_fn)
        else if key = ''isAvailable'' then Some (JSFunction IsAvailable_fn)
        else if key = ''supportsOnDevice'' then Some (JSFunction SupportsOnDevice_fn)
        else if key = ''getSupportedLocales'' then Some (JSFunction GetSupportedLocales_fn)
        else if key = ''requestAuthorization''
          then Some (JSFunction RequestAuthorization_fn)
        else Object_Get exports key)"
proof (intro conjI)
  show names: "property_names (Init env []) =
     [''transcribe'', ''isAvailable'', ''supportsOnDevice'', ''getSupportedLocales'',
      ''requestAuthorization'']"
    by (simp add: Init_def Object_Set_def Function_New_def property_names_def)
  show "length (property_names (Init env [])) = 5"
    by (simp add: names)
  show "set (property_names (Init env exports)) =
       set (property_names exports)
       \<union> {''transcribe'', ''isAvailable'', ''supportsOnDevice'',
          ''getSupportedLocales'', ''requestAuthorization''}"
    by (simp add: Init_def Object_Set_def property_names_def dom_update Let_def
        insert_commute)
  show "Object_Get (Init env exports) key =
       (if key = ''transcribe'' then Some (JSFunction Transcribe_fn)
        else if key = ''isAvailable'' then Some (JSFunction IsAvailable_fn)
        else if key = ''supportsOnDevice'' then Some (JSFunction SupportsOnDevice_fn)
        else if key = ''getSupportedLocales'' then Some (JSFunction GetSupportedLocales_fn)
        else if key = ''requestAuthorization''
          then Some (JSFunction RequestAuthorization_fn)
        else Object_Get exports key)"
    by (simp add: Init_def Object_Set_def Function_New_def Object_Get_def update_conv'
        Let_def)
qed

text \<open>
  C9: the outcome of \<open>transcribe\<close> does not depend on its argument. For any two
  arguments \<open>info1\<close> and \<open>info2\<close>, the callback gives the same value and the same
  environment, the caller gets the same thrown error and the same promises, and the
  thrown error is the same even from different promises \<open>h1\<close> and \<open>h2\<close>.
\<close>

theorem Transcribe_ignores_argument:
  "Transcribe info1 env = Transcribe info2 env
   \<and> host_call Transcribe_fn info1 h = host_call Transcribe_fn info2 h
   \<and> fst (host_call Transcribe_fn info1 h1) = fst (host_call Transcribe_fn info2 h2)"
  by (simp add: Transcribe_result host_call_Transcribe)

text \<open>
  C10: the C++ function \<open>Transcribe\<close> does not stop at the throw. From every
  environment and for every argument it returns the undefined value, and the
  environment it leaves has the error as its pending exception.
\<close>

theorem Transcribe_returns_undefined_with_pending_exception:
  "fst (Transcribe info env) = JSUndefined
   \<and> pending_exception (snd (Transcribe info env)) =
       Some (JSError Error_cls ''Apple Speech is only available on macOS'')
   \<and> call_native Transcribe_fn info env =
       (JSUndefined,
        env\<lparr>pending_exception :=
              Some (JSError Error_cls ''Apple Speech is only available on macOS'')\<rparr>)"
  by (simp add: Transcribe_result)

end
